theory Spec2Isabelle
  imports Complex_Main "HOL-Library.Multiset" "HOL-Library.Log_Nat"
begin

section \<open>Pension Modeler: the projection functions and the scenario table\<close>

text \<open>
  The program is \<^verbatim>\<open>src/streamlit_app.py\<close>: four functions, a block of calculations
  on the sidebar inputs, a block of checks, and a loop that builds one table row per
  retirement age and sorts the table.

  Numbers. A Python \<^verbatim>\<open>int\<close> is an \<^typ>\<open>int\<close>. A Python \<^verbatim>\<open>float\<close> is modelled as a
  \<^typ>\<open>real\<close>: every operation returns the exact result. Rounding to the nearest
  double, overflow, infinities and NaN are outside this model, so a theorem below
  speaks of the arithmetic the code writes down, not of the last bit of a double.
  Where the last bit is the question (how the outputs scale with the salary), the
  calculations are modelled a second time, with every operation rounded as a double
  rounds it: the definitions whose names end in \<open>_f64\<close>.
  The sidebar gives \<^verbatim>\<open>current_salary\<close> and \<^verbatim>\<open>sft_now\<close> as ints; they only ever meet
  floats in products, so they are carried as reals as well.
\<close>

subsection \<open>Python primitives\<close>

datatype column =
  Ret_Age | Ret_Year | Years_to_Ret | Service_yrs | Final_Salary | Annual_Pension
  | Lump_Sum | SFT_Value | SFT_Threshold | Over_SFT

datatype py_error = ZeroDivisionError | KeyError column

text \<open>
  \<^verbatim>\<open>x ** n\<close> for a float \<open>x\<close> and an int \<open>n\<close>: \<^verbatim>\<open>0.0 ** n\<close> raises
  ZeroDivisionError when \<open>n < 0\<close>; \<^verbatim>\<open>x ** 0\<close> is \<open>1.0\<close>; a negative \<open>n\<close> gives the
  reciprocal power.
\<close>

definition float_pow :: "real \<Rightarrow> int \<Rightarrow> py_error + real" where
  "float_pow x n = (if x = 0 \<and> n < 0 then Inl ZeroDivisionError else Inr (power_int x n))"

text \<open>
  \<^verbatim>\<open>round(x, ndigits)\<close> on a float rounds to the nearest multiple of
  \<open>10 ^ (- ndigits)\<close>, a tie going to the even one.
\<close>

definition round_half_even :: "real \<Rightarrow> int" where
  "round_half_even x =
     (let f = \<lfloor>x\<rfloor>; d = x - of_int f
      in if d < 1 / 2 then f else if 1 / 2 < d then f + 1 else if even f then f else f + 1)"

definition py_round :: "real \<Rightarrow> nat \<Rightarrow> real" where
  "py_round x ndigits = of_int (round_half_even (x * 10 ^ ndigits)) / 10 ^ ndigits"

subsection \<open>Functions (lines 40 to 52)\<close>

definition project_final_salary :: "real \<Rightarrow> real \<Rightarrow> int \<Rightarrow> py_error + real" where
  "project_final_salary salary_now growth_pct years =
     (case float_pow (1 + growth_pct / 100) years of
        Inl e \<Rightarrow> Inl e
      | Inr g \<Rightarrow> Inr (salary_now * g))"

definition project_service :: "real \<Rightarrow> real \<Rightarrow> int \<Rightarrow> real \<Rightarrow> real" where
  "project_service service_now accrual_per_year years cap =
     min (service_now + accrual_per_year * of_int years) cap"

definition sft_at_year :: "real \<Rightarrow> real \<Rightarrow> int \<Rightarrow> py_error + real" where
  "sft_at_year sft_now growth_pct years =
     (case float_pow (1 + growth_pct / 100) years of
        Inl e \<Rightarrow> Inl e
      | Inr g \<Rightarrow> Inr (sft_now * g))"

definition classic_db_pension :: "real \<Rightarrow> real \<Rightarrow> real \<times> real" where
  "classic_db_pension final_salary service_years =
     (let annual_pension = final_salary * (service_years / 80);
          lump_sum = final_salary * (service_years / 30)
      in (annual_pension, lump_sum))"

text \<open>
  The compound growth the specification calls \<open>project_growth\<close>, on a number of
  years that is a natural number: the formula both projectors are compared with.
\<close>

definition project_growth :: "real \<Rightarrow> real \<Rightarrow> nat \<Rightarrow> real" where
  "project_growth base annual_growth_pct years = base * (1 + annual_growth_pct / 100) ^ years"

subsection \<open>Sidebar inputs (lines 13 to 37)\<close>

record inputs =
  current_year :: int
  current_age :: int
  current_salary :: real
  salary_growth_pct :: real
  current_service :: real
  annual_service_accrual :: real
  max_service_cap :: real
  valuation_factor :: real
  sft_now :: real
  sft_growth_pct :: real

text \<open>The retirement target (lines 22 to 30): by age or by year.\<close>

datatype target_mode = Age int | Year int

record target =
  retirement_age :: int
  years_to_retirement :: int
  retirement_year :: int

fun retirement_target :: "inputs \<Rightarrow> target_mode \<Rightarrow> target" where
  "retirement_target p (Age age) =
     (let yrs = max 0 (age - current_age p)
      in \<lparr>retirement_age = age, years_to_retirement = yrs,
          retirement_year = current_year p + yrs\<rparr>)"
| "retirement_target p (Year yr) =
     (let yrs = max 0 (yr - current_year p)
      in \<lparr>retirement_age = current_age p + yrs, years_to_retirement = yrs,
          retirement_year = yr\<rparr>)"

subsection \<open>Valuation against the threshold (lines 59, 60, 89 and 115 to 117)\<close>

text \<open>
  The script writes the same three steps twice, once for the summary and once in the
  scenario loop: the capitalised value, the threshold grown to the retirement year,
  and the strict comparison. The result is the triple
  (\<open>sft_value\<close>, \<open>sft_threshold_future\<close>, \<open>over\<close>).
\<close>

definition sft_comparison ::
  "real \<Rightarrow> real \<Rightarrow> real \<Rightarrow> real \<Rightarrow> real \<Rightarrow> int \<Rightarrow> py_error + (real \<times> real \<times> bool)" where
  "sft_comparison pen val_factor ls sft_base growth_pct yrs =
     (let sft_val = pen * val_factor + ls
      in case sft_at_year sft_base growth_pct yrs of
           Inl e \<Rightarrow> Inl e
         | Inr sft_thr \<Rightarrow> Inr (sft_val, sft_thr, sft_val > sft_thr))"

subsection \<open>Calculations (lines 55 to 60)\<close>

record projection =
  final_salary :: real
  service_at_retirement :: real
  annual_pension :: real
  lump_sum :: real
  sft_value :: real
  sft_threshold_future :: real
  over :: bool

definition calculations :: "inputs \<Rightarrow> int \<Rightarrow> py_error + projection" where
  "calculations p yrs =
     (case project_final_salary (current_salary p) (salary_growth_pct p) yrs of
        Inl e \<Rightarrow> Inl e
      | Inr fs \<Rightarrow>
          (let svc = project_service (current_service p) (annual_service_accrual p) yrs
                       (max_service_cap p);
               (pen, ls) = classic_db_pension fs svc
           in case sft_comparison pen (valuation_factor p) ls (sft_now p)
                     (sft_growth_pct p) yrs of
                Inl e \<Rightarrow> Inl e
              | Inr (sft_val, sft_thr, ov) \<Rightarrow>
                  Inr \<lparr>final_salary = fs, service_at_retirement = svc,
                       annual_pension = pen, lump_sum = ls, sft_value = sft_val,
                       sft_threshold_future = sft_thr, over = ov\<rparr>))"

subsection \<open>Checks (lines 63 to 69)\<close>

definition checks :: "int \<Rightarrow> real \<Rightarrow> real \<Rightarrow> int \<Rightarrow> int \<Rightarrow> string list" where
  "checks yrs svc cap ret_age_now age_now =
     (if yrs = 0 then [''Retirement is this year (years to retirement = 0).''] else [])
     @ (if \<bar>svc - cap\<bar> < 1 / 10 ^ 9
        then [''Service hit the cap. Consider raising the cap or revising accrual.'']
        else [])
     @ (if ret_age_now < age_now then [''Retirement age is less than current age.''] else [])"

subsection \<open>Scenarios (lines 108 to 131)\<close>

record scenario_row =
  ret_age :: int
  ret_year :: int
  years_to_ret :: int
  service_yrs :: real
  final_salary_eur :: real
  annual_pension_eur :: real
  lump_sum_eur :: real
  sft_value_eur :: real
  sft_threshold_eur :: real
  over_sft :: string

text \<open>The dictionary of lines 118 to 129: the values are rounded for the table.\<close>

definition row_dict ::
  "int \<Rightarrow> int \<Rightarrow> int \<Rightarrow> real \<Rightarrow> real \<Rightarrow> real \<Rightarrow> real \<Rightarrow> real \<Rightarrow> real \<Rightarrow> bool \<Rightarrow> scenario_row" where
  "row_dict age ry yrs svc fs pen ls sft_val sft_thr ov =
     \<lparr>ret_age = age, ret_year = ry, years_to_ret = yrs,
      service_yrs = py_round svc 2,
      final_salary_eur = py_round fs 0,
      annual_pension_eur = py_round pen 0,
      lump_sum_eur = py_round ls 0,
      sft_value_eur = py_round sft_val 0,
      sft_threshold_eur = py_round sft_thr 0,
      over_sft = (if ov then ''Yes'' else ''No'')\<rparr>"

text \<open>The body of the loop (lines 110 to 129), for one age.\<close>

definition scenario :: "inputs \<Rightarrow> int \<Rightarrow> py_error + scenario_row" where
  "scenario p age =
     (let yrs = max 0 (age - current_age p);
          ry = current_year p + yrs
      in case project_final_salary (current_salary p) (salary_growth_pct p) yrs of
           Inl e \<Rightarrow> Inl e
         | Inr fs \<Rightarrow>
             (let svc = project_service (current_service p) (annual_service_accrual p) yrs
                          (max_service_cap p);
                  (pen, ls) = classic_db_pension fs svc
              in case sft_comparison pen (valuation_factor p) ls (sft_now p)
                        (sft_growth_pct p) yrs of
                   Inl e \<Rightarrow> Inl e
                 | Inr (sft_val, sft_thr, ov) \<Rightarrow>
                     Inr (row_dict age ry yrs svc fs pen ls sft_val sft_thr ov)))"

text \<open>The loop (lines 108 to 129): \<open>rows\<close> grows by one dictionary per age.\<close>

fun scenario_loop :: "inputs \<Rightarrow> int list \<Rightarrow> scenario_row list \<Rightarrow> py_error + scenario_row list" where
  "scenario_loop p [] rows = Inr rows"
| "scenario_loop p (age # ages) rows =
     (case scenario p age of
        Inl e \<Rightarrow> Inl e
      | Inr r \<Rightarrow> scenario_loop p ages (rows @ [r]))"

text \<open>
  Line 131 hands the list to pandas. \<^verbatim>\<open>pd.DataFrame(rows)\<close> takes its columns from the
  keys of the dictionaries, so an empty list gives a frame with no columns.
  \<^verbatim>\<open>sort_values(["Ret Age"])\<close> looks the column up first and raises KeyError when the
  frame has no such column; otherwise it returns the rows in ascending order of that
  column. Rows of equal age are equal here (a row is a function of its age), so the
  order pandas gives to ties does not show; the model sorts with a stable sort.
\<close>

definition all_columns :: "column list" where
  "all_columns = [Ret_Age, Ret_Year, Years_to_Ret, Service_yrs, Final_Salary,
     Annual_Pension, Lump_Sum, SFT_Value, SFT_Threshold, Over_SFT]"

record data_frame =
  columns :: "column list"
  records :: "scenario_row list"

definition DataFrame :: "scenario_row list \<Rightarrow> data_frame" where
  "DataFrame rows = \<lparr>columns = (if rows = [] then [] else all_columns), records = rows\<rparr>"

definition sort_values_Ret_Age :: "data_frame \<Rightarrow> py_error + data_frame" where
  "sort_values_Ret_Age df =
     (if Ret_Age \<in> set (columns df)
      then Inr (df\<lparr>records := sort_key ret_age (records df)\<rparr>)
      else Inl (KeyError Ret_Age))"

definition scenarios :: "inputs \<Rightarrow> int list \<Rightarrow> py_error + data_frame" where
  "scenarios p ages =
     (case scenario_loop p ages [] of
        Inl e \<Rightarrow> Inl e
      | Inr rows \<Rightarrow> sort_values_Ret_Age (DataFrame rows))"

subsection \<open>The calculations on doubles\<close>

text \<open>
  A double holds 53 significant bits. \<open>expo x\<close> is the exponent of \<open>x\<close>, the \<open>e\<close> with
  \<open>2 ^ e \<le> \<bar>x\<bar> < 2 ^ (e + 1)\<close>, and \<open>round_double x\<close> is the multiple of
  \<open>2 ^ (e - 52)\<close> nearest to \<open>x\<close>, a tie going to the even multiple: what an
  operation on doubles returns for the exact result \<open>x\<close>. The exponent is not bounded
  here, so overflow and subnormal numbers are outside the model; the amounts of the
  sidebar are far from both.
\<close>

definition expo :: "real \<Rightarrow> int" where
  "expo x =
     (let a = \<bar>x\<bar>
      in if 1 \<le> a then bitlen \<lfloor>a\<rfloor> - 1 else - bitlen (\<lceil>1 / a\<rceil> - 1))"

definition round_double :: "real \<Rightarrow> real" where
  "round_double x =
     of_int (round_half_even (x / power_int 2 (expo x - 52))) * power_int 2 (expo x - 52)"

text \<open>
  \<^verbatim>\<open>x ** n\<close> on doubles, as CPython's \<^verbatim>\<open>float_pow\<close> sorts out the cases: a zero
  exponent gives \<open>1.0\<close>; a zero base raises ZeroDivisionError under a negative
  exponent and gives \<open>0.0\<close> under a positive one; a negative base is raised by its
  absolute value, the result negated for an odd exponent; the absolute value \<open>1.0\<close>
  gives \<open>1.0\<close>; every other power is computed by the \<^verbatim>\<open>pow\<close> of the C library,
  which is not part of the program and is the parameter \<open>pw\<close>.
\<close>

definition float_pow_f64 :: "(real \<Rightarrow> int \<Rightarrow> real) \<Rightarrow> real \<Rightarrow> int \<Rightarrow> py_error + real" where
  "float_pow_f64 pw x n =
     (if n = 0 then Inr 1
      else if x = 0 then (if n < 0 then Inl ZeroDivisionError else Inr 0)
      else
        (let a = \<bar>x\<bar>;
             sgn_result = (if x < 0 \<and> odd n then - 1 else 1)
         in if a = 1 then Inr sgn_result else Inr (sgn_result * pw a n)))"

text \<open>One \<^verbatim>\<open>pow\<close> a C library may provide: the exact power, rounded once.\<close>

definition pow_rounded :: "real \<Rightarrow> int \<Rightarrow> real" where
  "pow_rounded x n = round_double (power_int x n)"

definition project_final_salary_f64 ::
  "(real \<Rightarrow> int \<Rightarrow> real) \<Rightarrow> real \<Rightarrow> real \<Rightarrow> int \<Rightarrow> py_error + real" where
  "project_final_salary_f64 pw salary_now growth_pct years =
     (case float_pow_f64 pw (round_double (1 + round_double (growth_pct / 100))) years of
        Inl e \<Rightarrow> Inl e
      | Inr g \<Rightarrow> Inr (round_double (salary_now * g)))"

definition project_service_f64 :: "real \<Rightarrow> real \<Rightarrow> int \<Rightarrow> real \<Rightarrow> real" where
  "project_service_f64 service_now accrual_per_year years cap =
     min (round_double (service_now + round_double (accrual_per_year * of_int years))) cap"

definition sft_at_year_f64 ::
  "(real \<Rightarrow> int \<Rightarrow> real) \<Rightarrow> real \<Rightarrow> real \<Rightarrow> int \<Rightarrow> py_error + real" where
  "sft_at_year_f64 pw sft_base growth_pct years =
     (case float_pow_f64 pw (round_double (1 + round_double (growth_pct / 100))) years of
        Inl e \<Rightarrow> Inl e
      | Inr g \<Rightarrow> Inr (round_double (sft_base * g)))"

definition classic_db_pension_f64 :: "real \<Rightarrow> real \<Rightarrow> real \<times> real" where
  "classic_db_pension_f64 fs service_years =
     (let pen = round_double (fs * round_double (service_years / 80));
          ls = round_double (fs * round_double (service_years / 30))
      in (pen, ls))"

definition sft_comparison_f64 ::
  "(real \<Rightarrow> int \<Rightarrow> real) \<Rightarrow> real \<Rightarrow> real \<Rightarrow> real \<Rightarrow> real \<Rightarrow> real \<Rightarrow> int
     \<Rightarrow> py_error + (real \<times> real \<times> bool)" where
  "sft_comparison_f64 pw pen val_factor ls sft_base growth_pct yrs =
     (let sft_val = round_double (round_double (pen * val_factor) + ls)
      in case sft_at_year_f64 pw sft_base growth_pct yrs of
           Inl e \<Rightarrow> Inl e
         | Inr sft_thr \<Rightarrow> Inr (sft_val, sft_thr, sft_val > sft_thr))"

definition calculations_f64 ::
  "(real \<Rightarrow> int \<Rightarrow> real) \<Rightarrow> inputs \<Rightarrow> int \<Rightarrow> py_error + projection" where
  "calculations_f64 pw p yrs =
     (case project_final_salary_f64 pw (current_salary p) (salary_growth_pct p) yrs of
        Inl e \<Rightarrow> Inl e
      | Inr fs \<Rightarrow>
          (let svc = project_service_f64 (current_service p) (annual_service_accrual p) yrs
                       (max_service_cap p);
               (pen, ls) = classic_db_pension_f64 fs svc
           in case sft_comparison_f64 pw pen (valuation_factor p) ls (sft_now p)
                     (sft_growth_pct p) yrs of
                Inl e \<Rightarrow> Inl e
              | Inr (sft_val, sft_thr, ov) \<Rightarrow>
                  Inr \<lparr>final_salary = fs, service_at_retirement = svc,
                       annual_pension = pen, lump_sum = ls, sft_value = sft_val,
                       sft_threshold_future = sft_thr, over = ov\<rparr>))"

text \<open>
  The relative error of one rounding is at most \<open>2 ^ (- 53)\<close>, so a rounded
  non-negative result and the exact one are within the factor \<open>rounding_factor\<close> of
  each other.
\<close>

definition rounding_factor :: real where
  "rounding_factor = (1 + 1 / 2 ^ 53) / (1 - 1 / 2 ^ 53)"

definition within_factor :: "real \<Rightarrow> real \<Rightarrow> real \<Rightarrow> bool" where
  "within_factor r x y = (x \<le> r * y \<and> y \<le> r * x)"

section \<open>Basic facts\<close>

lemma float_pow_nat: "float_pow x (int n) = Inr (x ^ n)"
  by (simp add: float_pow_def)

lemma float_pow_nonneg: "0 \<le> n \<Longrightarrow> float_pow x n = Inr (x ^ nat n)"
  by (simp add: float_pow_def power_int_nonneg_exp)

lemma project_final_salary_nonneg:
  "0 \<le> yrs \<Longrightarrow> project_final_salary s g yrs = Inr (s * (1 + g / 100) ^ nat yrs)"
  by (simp add: project_final_salary_def float_pow_nonneg)

lemma sft_at_year_nonneg:
  "0 \<le> yrs \<Longrightarrow> sft_at_year s g yrs = Inr (s * (1 + g / 100) ^ nat yrs)"
  by (simp add: sft_at_year_def float_pow_nonneg)

lemma sft_comparison_Inr:
  "sft_at_year b g yrs = Inr thr \<Longrightarrow>
   sft_comparison pen vf ls b g yrs = Inr (pen * vf + ls, thr, thr < pen * vf + ls)"
  by (simp add: sft_comparison_def Let_def)

lemma sft_comparison_Inl:
  "sft_at_year b g yrs = Inl e \<Longrightarrow> sft_comparison pen vf ls b g yrs = Inl e"
  by (simp add: sft_comparison_def)

text \<open>
  The calculations in closed form: for any number of years, and for one that is not
  negative (the only kind the script passes, since it clamps at zero).
\<close>

lemma calculations_eq:
  "calculations p yrs =
    (if (1 + salary_growth_pct p / 100 = 0 \<or> 1 + sft_growth_pct p / 100 = 0) \<and> yrs < 0
     then Inl ZeroDivisionError
     else
       (let fs = current_salary p * power_int (1 + salary_growth_pct p / 100) yrs;
            svc = project_service (current_service p) (annual_service_accrual p) yrs
                    (max_service_cap p);
            pen = fs * (svc / 80);
            ls = fs * (svc / 30);
            thr = sft_now p * power_int (1 + sft_growth_pct p / 100) yrs
        in Inr \<lparr>final_salary = fs, service_at_retirement = svc, annual_pension = pen,
                lump_sum = ls, sft_value = pen * valuation_factor p + ls,
                sft_threshold_future = thr, over = (thr < pen * valuation_factor p + ls)\<rparr>))"
  by (simp add: calculations_def project_final_salary_def sft_at_year_def float_pow_def
      sft_comparison_def classic_db_pension_def Let_def)

lemma calculations_nonneg:
  assumes "0 \<le> yrs"
  shows "calculations p yrs =
    (let fs = current_salary p * (1 + salary_growth_pct p / 100) ^ nat yrs;
         svc = project_service (current_service p) (annual_service_accrual p) yrs
                 (max_service_cap p);
         pen = fs * (svc / 80);
         ls = fs * (svc / 30);
         thr = sft_now p * (1 + sft_growth_pct p / 100) ^ nat yrs
     in Inr \<lparr>final_salary = fs, service_at_retirement = svc, annual_pension = pen,
             lump_sum = ls, sft_value = pen * valuation_factor p + ls,
             sft_threshold_future = thr, over = (thr < pen * valuation_factor p + ls)\<rparr>)"
  using assms
  by (simp add: calculations_def project_final_salary_nonneg sft_at_year_nonneg
      sft_comparison_Inr classic_db_pension_def Let_def)

lemma scenario_eq:
  "scenario p age =
    (let yrs = max 0 (age - current_age p);
         fs = current_salary p * (1 + salary_growth_pct p / 100) ^ nat yrs;
         svc = project_service (current_service p) (annual_service_accrual p) yrs
                 (max_service_cap p);
         pen = fs * (svc / 80);
         ls = fs * (svc / 30);
         thr = sft_now p * (1 + sft_growth_pct p / 100) ^ nat yrs
     in Inr (row_dict age (current_year p + yrs) yrs svc fs pen ls
               (pen * valuation_factor p + ls) thr (thr < pen * valuation_factor p + ls)))"
  by (simp add: scenario_def project_final_salary_nonneg sft_at_year_nonneg
      sft_comparison_Inr classic_db_pension_def Let_def)

lemma row_dict_ret_age [simp]:
  "ret_age (row_dict age ry yrs svc fs pen ls sft_val sft_thr ov) = age"
  by (simp add: row_dict_def)

lemma scenario_via_calculations:
  "scenario p age =
     (case calculations p (max 0 (age - current_age p)) of
        Inl e \<Rightarrow> Inl e
      | Inr r \<Rightarrow>
          Inr (row_dict age (current_year p + max 0 (age - current_age p))
                 (max 0 (age - current_age p))
                 (service_at_retirement r) (final_salary r) (annual_pension r) (lump_sum r)
                 (sft_value r) (sft_threshold_future r) (over r)))"
  by (simp add: scenario_eq calculations_nonneg Let_def)

lemma retirement_target_years_nonneg: "0 \<le> years_to_retirement (retirement_target p m)"
  by (cases m) (simp_all add: Let_def)

lemma growth_le:
  fixes base g :: real
  assumes "0 \<le> base" and "0 \<le> g" and "0 \<le> y1" and "y1 < y2"
  shows "base * (1 + g / 100) ^ nat y1 \<le> base * (1 + g / 100) ^ nat y2"
proof -
  have "1 \<le> 1 + g / 100"
    using assms(2) by simp
  moreover have "nat y1 \<le> nat y2"
    using assms(3,4) by simp
  ultimately have "(1 + g / 100) ^ nat y1 \<le> (1 + g / 100) ^ nat y2"
    by (rule power_increasing [rotated])
  then show ?thesis
    using assms(1) by (rule mult_left_mono)
qed

text \<open>The loop appends the row of each age, in the order of the ages.\<close>

lemma scenario_loop_rows:
  assumes "\<And>age. scenario p age = Inr (f age)"
  shows "scenario_loop p ages rows = Inr (rows @ map f ages)"
  by (induction ages arbitrary: rows) (simp_all add: assms)

text \<open>Sorting rows by a key they are built from is sorting the keys.\<close>

lemma insort_key_map_section:
  assumes "\<And>x. key (f x) = x"
  shows "insort_key key (f x) (map f ys) = map f (insort x ys)"
  by (induction ys) (simp_all add: assms)

lemma sort_key_map_section:
  assumes "\<And>x. key (f x) = x"
  shows "sort_key key (map f xs) = map f (sort xs)"
  by (induction xs) (simp_all add: insort_key_map_section [of key f, OF assms])

text \<open>
  Any arrangement of the rows that is ascending in the key is the one the stable sort
  gives, since a row is determined by its key: the table does not depend on how the
  sort orders rows of equal age.
\<close>

lemma sorted_rows_unique:
  assumes key: "\<And>x. key (f x) = x"
    and perm: "mset ys = mset (map f xs)"
    and asc: "sorted (map key ys)"
  shows "ys = sort_key key (map f xs)"
proof -
  have "map key (map f xs) = xs"
    by (simp add: o_def key)
  moreover have "mset (map key ys) = mset (map key (map f xs))"
    using perm by (metis mset_map)
  ultimately have "mset (map key ys) = mset xs"
    by simp
  then have keys: "map key ys = sort xs"
    using asc by (metis properties_for_sort)
  have "\<forall>y \<in> set ys. f (key y) = y"
  proof
    fix y
    assume "y \<in> set ys"
    then have "y \<in> set (map f xs)"
      using perm by (metis mset_eq_setD)
    then show "f (key y) = y"
      by (auto simp: key)
  qed
  then have "map f (map key ys) = ys"
    by (simp add: map_idI)
  then show ?thesis
    by (simp add: keys sort_key_map_section [of key f, OF key])
qed

section \<open>The service projector\<close>

text \<open>
  Claim C1, as the specification words it: \<open>project_service\<close> never returns less than
  \<open>base_service\<close>; with \<open>base_service\<close> above \<open>cap\<close> the result is \<open>base_service\<close>, and
  with a zero accrual the result is \<open>base_service\<close>. The code takes the minimum with
  the cap, so a service of 45 years under a cap of 40 comes back as 40, also when
  nothing accrues.
\<close>

theorem project_service_lowers_counterexample:
  "(40::real) < 45 \<and> project_service 45 0 10 40 = 40 \<and> project_service 45 0 10 40 \<noteq> 45"
  by (simp add: project_service_def)

text \<open>
  Claim C1, amended: \<open>project_service\<close> returns the smaller of
  \<open>base_service + accrual_per_year * years\<close> and \<open>cap\<close>. So, for a non-negative
  accrual and a non-negative number of years, a base service within the cap is never
  lowered and the result stays within the cap; a base service above the cap comes back
  as the cap; and with a zero accrual the result is the smaller of base service and
  cap.
\<close>

theorem project_service_clamped:
  assumes "0 \<le> accrual" and "0 \<le> years"
  shows "project_service base accrual years cap = min (base + accrual * of_int years) cap
       \<and> (base \<le> cap \<longrightarrow>
            base \<le> project_service base accrual years cap
          \<and> project_service base accrual years cap \<le> cap)
       \<and> (cap < base \<longrightarrow> project_service base accrual years cap = cap)
       \<and> project_service base 0 years cap = min base cap"
proof -
  have grow: "0 \<le> accrual * of_int years"
    using assms by simp
  show ?thesis
    using grow by (auto simp: project_service_def min_def)
qed

theorem project_service_clamped_witness:
  "(0::real) \<le> 1 \<and> (0::int) \<le> 10
   \<and> project_service 20 1 10 40 = 30
   \<and> project_service 35 1 10 40 = 40
   \<and> (20::real) \<le> project_service 20 1 10 40 \<and> project_service 20 1 10 40 \<le> 40
   \<and> project_service 45 1 10 40 = 40
   \<and> project_service 20 0 10 40 = 20"
  using project_service_clamped [of 1 10 20 40] project_service_clamped [of 1 10 45 40]
    project_service_clamped [of 1 10 35 40]
  by simp

text \<open>
  Claim C8: when the accrued service \<open>current_service + accrual * years\<close> is above the
  cap, \<open>project_service\<close> returns the cap itself, the distance to the cap is below
  \<open>1e-9\<close>, and the checks list the warning that service hit the cap. (The signs of
  accrual and years play no part.)
\<close>

theorem service_hits_cap:
  assumes "cap < cs + accrual * of_int years"
  shows "project_service cs accrual years cap = cap
       \<and> \<bar>project_service cs accrual years cap - cap\<bar> < 1 / 10 ^ 9
       \<and> ''Service hit the cap. Consider raising the cap or revising accrual.''
           \<in> set (checks years (project_service cs accrual years cap) cap ra ca)"
proof -
  have eq: "project_service cs accrual years cap = cap"
    using assms by (simp add: project_service_def)
  show ?thesis
    unfolding eq by (simp add: checks_def)
qed

theorem service_hits_cap_witness:
  "(40::real) < 35 + 1 * of_int 10
   \<and> project_service 35 1 10 40 = 40
   \<and> ''Service hit the cap. Consider raising the cap or revising accrual.''
       \<in> set (checks 10 (project_service 35 1 10 40) 40 65 55)"
proof -
  have h: "(40::real) < 35 + 1 * of_int 10"
    by simp
  from service_hits_cap [OF h, of 65 55] h show ?thesis
    by blast
qed

section \<open>The benefit calculator\<close>

text \<open>
  Claim C5: \<open>classic_db_pension\<close> returns the annual pension
  \<open>final_salary * service_years / 80\<close> and the lump sum
  \<open>final_salary * service_years / 30\<close>, so both are zero when the salary or the
  service is zero. The divisor of the lump sum is 30: on a salary of 80 and one year
  of service it is \<open>8 / 3\<close>, where three eightieths would give 3.
\<close>

theorem classic_db_pension_formula:
  "classic_db_pension fs sy = (fs * sy / 80, fs * sy / 30)
   \<and> classic_db_pension 0 sy = (0, 0)
   \<and> classic_db_pension fs 0 = (0, 0)
   \<and> snd (classic_db_pension 80 1) = 8 / 3"
  by (simp add: classic_db_pension_def)

section \<open>The growth projectors\<close>

text \<open>
  Claim C7: the salary projector and the threshold projector are one function. They
  agree on every base, percentage and number of years; both return
  \<open>base * (1 + growth_pct / 100) ^ years\<close>, the only other outcome being the
  ZeroDivisionError that Python raises for a zero base of the power under a negative
  exponent; and on a number of years that is a natural number both are the
  \<open>project_growth\<close> of the specification.
\<close>

theorem projectors_same_formula:
  "project_final_salary base g years = sft_at_year base g years
   \<and> project_final_salary base g years =
       (if 1 + g / 100 = 0 \<and> years < 0 then Inl ZeroDivisionError
        else Inr (base * power_int (1 + g / 100) years))
   \<and> project_final_salary base g (int n) = Inr (project_growth base g n)
   \<and> sft_at_year base g (int n) = Inr (project_growth base g n)"
  by (simp add: project_final_salary_def sft_at_year_def float_pow_def project_growth_def)

text \<open>
  Claim C6: for a base and a growth percentage that are not negative, and whole
  numbers of years \<open>0 \<le> y1 < y2\<close>, the projection at \<open>y1\<close> is at most the
  projection at \<open>y2\<close>, for the salary projector and for the threshold projector; so
  in the calculations the final salary and the threshold do not decrease with the
  years to retirement when their growth percentages are not negative.
\<close>

theorem growth_monotone_in_years:
  assumes "0 \<le> y1" and "y1 < y2"
  shows "(0 \<le> base \<and> 0 \<le> g \<longrightarrow>
            (\<exists>v1 v2. project_final_salary base g y1 = Inr v1
               \<and> project_final_salary base g y2 = Inr v2
               \<and> sft_at_year base g y1 = Inr v1
               \<and> sft_at_year base g y2 = Inr v2
               \<and> v1 \<le> v2))
       \<and> (\<exists>r1 r2. calculations p y1 = Inr r1 \<and> calculations p y2 = Inr r2
             \<and> (0 \<le> current_salary p \<and> 0 \<le> salary_growth_pct p \<longrightarrow>
                  final_salary r1 \<le> final_salary r2)
             \<and> (0 \<le> sft_now p \<and> 0 \<le> sft_growth_pct p \<longrightarrow>
                  sft_threshold_future r1 \<le> sft_threshold_future r2))"
proof -
  have y2: "0 \<le> y2"
    using assms by simp
  have projectors: "\<exists>v1 v2. project_final_salary base g y1 = Inr v1
               \<and> project_final_salary base g y2 = Inr v2
               \<and> sft_at_year base g y1 = Inr v1
               \<and> sft_at_year base g y2 = Inr v2
               \<and> v1 \<le> v2" if "0 \<le> base" and "0 \<le> g"
    using growth_le [OF that assms] assms(1) y2
    by (simp add: project_final_salary_nonneg sft_at_year_nonneg)
  have salary: "current_salary p * (1 + salary_growth_pct p / 100) ^ nat y1
      \<le> current_salary p * (1 + salary_growth_pct p / 100) ^ nat y2"
    if "0 \<le> current_salary p" and "0 \<le> salary_growth_pct p"
    using growth_le [OF that assms] .
  have threshold: "sft_now p * (1 + sft_growth_pct p / 100) ^ nat y1
      \<le> sft_now p * (1 + sft_growth_pct p / 100) ^ nat y2"
    if "0 \<le> sft_now p" and "0 \<le> sft_growth_pct p"
    using growth_le [OF that assms] .
  have pipeline: "\<exists>r1 r2. calculations p y1 = Inr r1 \<and> calculations p y2 = Inr r2
             \<and> (0 \<le> current_salary p \<and> 0 \<le> salary_growth_pct p \<longrightarrow>
                  final_salary r1 \<le> final_salary r2)
             \<and> (0 \<le> sft_now p \<and> 0 \<le> sft_growth_pct p \<longrightarrow>
                  sft_threshold_future r1 \<le> sft_threshold_future r2)"
    using salary threshold assms(1) y2 by (simp add: calculations_nonneg Let_def)
  from projectors pipeline show ?thesis
    by blast
qed

theorem growth_monotone_in_years_witness:
  "(0::int) \<le> 1 \<and> (1::int) < 2 \<and> (0::real) \<le> 100000 \<and> (0::real) \<le> 2
   \<and> project_final_salary 100000 2 1 = Inr 102000
   \<and> project_final_salary 100000 2 2 = Inr 104040
   \<and> (\<exists>v1 v2. sft_at_year 100000 2 1 = Inr v1 \<and> sft_at_year 100000 2 2 = Inr v2 \<and> v1 \<le> v2)
   \<and> (\<exists>r1 r2.
        calculations
          \<lparr>current_year = 2026, current_age = 55, current_salary = 100000,
           salary_growth_pct = 2, current_service = 20, annual_service_accrual = 1,
           max_service_cap = 40, valuation_factor = 20, sft_now = 2000000,
           sft_growth_pct = 1\<rparr> 1 = Inr r1
        \<and> calculations
          \<lparr>current_year = 2026, current_age = 55, current_salary = 100000,
           salary_growth_pct = 2, current_service = 20, annual_service_accrual = 1,
           max_service_cap = 40, valuation_factor = 20, sft_now = 2000000,
           sft_growth_pct = 1\<rparr> 2 = Inr r2
        \<and> final_salary r1 \<le> final_salary r2
        \<and> sft_threshold_future r1 \<le> sft_threshold_future r2)"
proof -
  have h: "(0::int) \<le> 1" "(1::int) < 2"
    by simp_all
  have v: "project_final_salary 100000 2 1 = Inr 102000"
    "project_final_salary 100000 2 2 = Inr 104040"
    by (simp_all add: project_final_salary_def float_pow_def power2_eq_square)
  from growth_monotone_in_years [OF h, of 100000 2
      "\<lparr>current_year = 2026, current_age = 55, current_salary = 100000,
           salary_growth_pct = 2, current_service = 20, annual_service_accrual = 1,
           max_service_cap = 40, valuation_factor = 20, sft_now = 2000000,
           sft_growth_pct = 1\<rparr>"] v
  show ?thesis
    by (simp del: ex_simps)
qed

section \<open>Valuation and threshold\<close>

text \<open>
  Claim C4: the valuation is \<open>annual_pension * valuation_factor + lump_sum\<close>, the
  threshold is the growth projection of \<open>sft_now\<close> at \<open>sft_growth_pct\<close> over the years
  to retirement, and the scenario is over the threshold exactly when the valuation is
  strictly greater: equal values count as within. This holds of the comparison on
  any pension, factor and lump sum, and of the values the calculations return.
\<close>

theorem sft_comparison_contract:
  "sft_comparison pen vf ls b g (int n) =
     Inr (pen * vf + ls, project_growth b g n, project_growth b g n < pen * vf + ls)
   \<and> (sft_at_year b g yrs = Inr thr \<longrightarrow>
        sft_comparison pen vf ls b g yrs = Inr (pen * vf + ls, thr, thr < pen * vf + ls))
   \<and> (calculations p yrs = Inr r \<longrightarrow>
        sft_value r = annual_pension r * valuation_factor p + lump_sum r
        \<and> sft_at_year (sft_now p) (sft_growth_pct p) yrs = Inr (sft_threshold_future r)
        \<and> over r = (sft_threshold_future r < sft_value r))"
proof (intro conjI impI)
  have "sft_at_year b g (int n) = Inr (project_growth b g n)"
    by (simp add: sft_at_year_def float_pow_nat project_growth_def)
  then show "sft_comparison pen vf ls b g (int n) =
      Inr (pen * vf + ls, project_growth b g n, project_growth b g n < pen * vf + ls)"
    by (rule sft_comparison_Inr)
next
  assume "sft_at_year b g yrs = Inr thr"
  then show "sft_comparison pen vf ls b g yrs = Inr (pen * vf + ls, thr, thr < pen * vf + ls)"
    by (rule sft_comparison_Inr)
next
  assume run: "calculations p yrs = Inr r"
  then obtain fs where fs: "project_final_salary (current_salary p) (salary_growth_pct p) yrs = Inr fs"
    by (auto simp: calculations_def split: sum.splits)
  let ?svc = "project_service (current_service p) (annual_service_accrual p) yrs (max_service_cap p)"
  obtain pen' ls' where pl: "classic_db_pension fs ?svc = (pen', ls')"
    by (cases "classic_db_pension fs ?svc")
  from run fs pl obtain thr' where
    thr: "sft_at_year (sft_now p) (sft_growth_pct p) yrs = Inr thr'"
    by (cases "sft_at_year (sft_now p) (sft_growth_pct p) yrs")
       (auto simp: calculations_def sft_comparison_Inl)
  from run fs pl thr have r: "r = \<lparr>final_salary = fs, service_at_retirement = ?svc,
      annual_pension = pen', lump_sum = ls', sft_value = pen' * valuation_factor p + ls',
      sft_threshold_future = thr', over = (thr' < pen' * valuation_factor p + ls')\<rparr>"
    by (simp add: calculations_def sft_comparison_Inr)
  show "sft_value r = annual_pension r * valuation_factor p + lump_sum r"
    by (simp add: r)
  show "sft_at_year (sft_now p) (sft_growth_pct p) yrs = Inr (sft_threshold_future r)"
    by (simp add: r thr)
  show "over r = (sft_threshold_future r < sft_value r)"
    by (simp add: r)
qed

theorem sft_comparison_contract_witness:
  "sft_comparison 1 20 0 20 0 0 = Inr (20, 20, False)
   \<and> sft_comparison 2 20 0 20 0 0 = Inr (40, 20, True)
   \<and> (\<exists>r. calculations
          \<lparr>current_year = 2026, current_age = 55, current_salary = 100000,
           salary_growth_pct = 0, current_service = 20, annual_service_accrual = 1,
           max_service_cap = 40, valuation_factor = 20, sft_now = 2000000,
           sft_growth_pct = 0\<rparr> 10 = Inr r
        \<and> sft_value r = annual_pension r * 20 + lump_sum r
        \<and> sft_threshold_future r = 2000000
        \<and> \<not> over r)"
proof -
  let ?p = "\<lparr>current_year = 2026, current_age = 55, current_salary = 100000,
           salary_growth_pct = 0, current_service = 20, annual_service_accrual = 1,
           max_service_cap = 40, valuation_factor = 20, sft_now = 2000000,
           sft_growth_pct = 0\<rparr>"
  have thr: "sft_at_year 20 0 0 = Inr 20"
    by (simp add: sft_at_year_def float_pow_def)
  obtain r where r: "calculations ?p 10 = Inr r"
    by (simp add: calculations_eq Let_def)
  have v: "sft_value r = 850000"
    using r by (auto simp: calculations_eq Let_def project_service_def)
  have t: "sft_at_year (sft_now ?p) (sft_growth_pct ?p) 10 = Inr 2000000"
    by (simp add: sft_at_year_def float_pow_def)
  from sft_comparison_contract [of 1 20 0 20 0 0 0 20 ?p r] thr
  have a: "sft_comparison 1 20 0 20 0 0 = Inr (20, 20, False)"
    by auto
  from sft_comparison_contract [of 2 20 0 20 0 0 0 20 ?p r] thr
  have b: "sft_comparison 2 20 0 20 0 0 = Inr (40, 20, True)"
    by auto
  from sft_comparison_contract [of 1 20 0 20 0 0 10 20 ?p r] r v t
  have c: "sft_value r = annual_pension r * 20 + lump_sum r
        \<and> sft_threshold_future r = 2000000 \<and> \<not> over r"
    by simp
  from a b c r show ?thesis
    by blast
qed

section \<open>The calculations as a whole\<close>

text \<open>
  Claim C9: with a salary and a service that are not negative, growth percentages and
  an accrual that are not negative, a positive cap, valuation factor and current
  threshold, and years to retirement that are not negative, the calculations return,
  and the final salary, the annual pension, the lump sum, the valuation and the
  threshold are all at least zero.
\<close>

theorem monetary_outputs_nonneg:
  assumes "0 \<le> current_salary p" and "0 \<le> current_service p"
    and "0 \<le> salary_growth_pct p" and "0 \<le> sft_growth_pct p"
    and "0 \<le> annual_service_accrual p" and "0 < max_service_cap p"
    and "0 < valuation_factor p" and "0 < sft_now p" and "0 \<le> yrs"
  shows "\<exists>r. calculations p yrs = Inr r
           \<and> 0 \<le> final_salary r \<and> 0 \<le> annual_pension r \<and> 0 \<le> lump_sum r
           \<and> 0 \<le> sft_value r \<and> 0 \<le> sft_threshold_future r"
proof -
  let ?fs = "current_salary p * (1 + salary_growth_pct p / 100) ^ nat yrs"
  let ?svc = "project_service (current_service p) (annual_service_accrual p) yrs
                (max_service_cap p)"
  let ?thr = "sft_now p * (1 + sft_growth_pct p / 100) ^ nat yrs"
  have fs: "0 \<le> ?fs"
    using assms(1,3) by simp
  have "0 \<le> annual_service_accrual p * of_int yrs"
    using assms(5,9) by simp
  then have svc: "0 \<le> ?svc"
    using assms(2,6) by (simp add: project_service_def)
  have pen: "0 \<le> ?fs * (?svc / 80)"
    using fs svc by simp
  have ls: "0 \<le> ?fs * (?svc / 30)"
    using fs svc by simp
  have val: "0 \<le> ?fs * (?svc / 80) * valuation_factor p + ?fs * (?svc / 30)"
    using pen ls assms(7) by simp
  have thr: "0 \<le> ?thr"
    using assms(4,8) by simp
  show ?thesis
    using assms(9) fs pen ls val thr by (simp add: calculations_nonneg Let_def)
qed

theorem monetary_outputs_nonneg_witness:
  "\<exists>r. calculations
          \<lparr>current_year = 2026, current_age = 55, current_salary = 100000,
           salary_growth_pct = 2, current_service = 20, annual_service_accrual = 1,
           max_service_cap = 40, valuation_factor = 20, sft_now = 2000000,
           sft_growth_pct = 0\<rparr> 10 = Inr r
        \<and> 0 \<le> final_salary r \<and> 0 \<le> annual_pension r \<and> 0 \<le> lump_sum r
        \<and> 0 \<le> sft_value r \<and> 0 \<le> sft_threshold_future r"
  using monetary_outputs_nonneg [of "\<lparr>current_year = 2026, current_age = 55,
           current_salary = 100000,
           salary_growth_pct = 2, current_service = 20, annual_service_accrual = 1,
           max_service_cap = 40, valuation_factor = 20, sft_now = 2000000,
           sft_growth_pct = 0\<rparr>" 10]
  by simp




section \<open>The scenario table\<close>

text \<open>
  Claim C2: an empty list of ages gives an empty sequence of rows and no error, and a
  single age \<open>a\<close> gives exactly one row, of retirement age \<open>a\<close>. The second half
  holds. For the first, the loop does leave \<open>rows\<close> empty, but line 131 then sorts a
  frame without columns by \<open>Ret Age\<close>, and that raises KeyError.
\<close>

theorem scenarios_empty_ages:
  "scenario_loop p [] [] = Inr []
   \<and> scenarios p [] = Inl (KeyError Ret_Age)
   \<and> (\<exists>r. scenarios p [a] = Inr \<lparr>columns = all_columns, records = [r]\<rparr> \<and> ret_age r = a)"
  by (simp add: scenarios_def DataFrame_def sort_values_Ret_Age_def scenario_eq Let_def
      all_columns_def)

text \<open>
  Claim C3: for every list of ages the table has one row per requested age,
  duplicates included, in ascending order of retirement age whatever the order of the
  request, and each row holds (rounded for display) what the calculations of the
  single scenario give at \<open>years = max 0 (age - current_age)\<close>, with
  \<open>retirement_year = current_year + years\<close>. This is what the code does on every list
  but the empty one, where it raises the KeyError of claim C2.
\<close>

theorem scenarios_rows:
  "\<exists>rows. scenario_loop p ages [] = Inr rows
     \<and> map Inr rows = map (scenario p) ages
     \<and> map ret_age rows = ages
     \<and> scenarios p ages =
         (if ages = [] then Inl (KeyError Ret_Age)
          else Inr \<lparr>columns = all_columns, records = sort_key ret_age rows\<rparr>)
     \<and> map Inr (sort_key ret_age rows) = map (scenario p) (sort ages)
     \<and> map ret_age (sort_key ret_age rows) = sort ages
     \<and> (\<forall>age. scenario p age =
           (case calculations p (max 0 (age - current_age p)) of
              Inl e \<Rightarrow> Inl e
            | Inr r \<Rightarrow>
                Inr (row_dict age (current_year p + max 0 (age - current_age p))
                       (max 0 (age - current_age p))
                       (service_at_retirement r) (final_salary r) (annual_pension r)
                       (lump_sum r) (sft_value r) (sft_threshold_future r) (over r))))"
proof -
  define f where "f age = projr (scenario p age)" for age
  have f: "\<And>age. scenario p age = Inr (f age)"
    by (simp add: f_def scenario_eq Let_def)
  have key: "\<And>age. ret_age (f age) = age"
  proof -
    fix age
    have "Inr (f age) = scenario p age"
      by (simp add: f)
    then show "ret_age (f age) = age"
      by (simp add: scenario_eq Let_def)
  qed
  have loop: "scenario_loop p ages [] = Inr (map f ages)"
    using scenario_loop_rows [of p f ages "[]", OF f] by simp
  have sorted_rows: "sort_key ret_age (map f ages) = map f (sort ages)"
    by (rule sort_key_map_section [of ret_age f, OF key])
  have frame: "scenarios p ages =
      (if ages = [] then Inl (KeyError Ret_Age)
       else Inr \<lparr>columns = all_columns, records = sort_key ret_age (map f ages)\<rparr>)"
    by (simp add: scenarios_def loop DataFrame_def sort_values_Ret_Age_def all_columns_def)
  have a: "map Inr (map f ages) = map (scenario p) ages"
    by (simp add: f)
  have b: "map ret_age (map f ages) = ages"
    by (simp add: key map_idI)
  have c: "map Inr (sort_key ret_age (map f ages)) = map (scenario p) (sort ages)"
    by (simp add: sorted_rows f)
  have d: "map ret_age (sort_key ret_age (map f ages)) = sort ages"
    by (simp add: sorted_rows key map_idI)
  from loop a b frame c d scenario_via_calculations [of p] show ?thesis
    by blast
qed

theorem scenarios_rows_witness:
  "\<exists>df. scenarios
          \<lparr>current_year = 2026, current_age = 55, current_salary = 100000,
           salary_growth_pct = 2, current_service = 20, annual_service_accrual = 1,
           max_service_cap = 40, valuation_factor = 20, sft_now = 2000000,
           sft_growth_pct = 0\<rparr> [65, 60, 65] = Inr df
        \<and> columns df = all_columns
        \<and> map ret_age (records df) = [60, 65, 65]"
proof -
  let ?p = "\<lparr>current_year = 2026, current_age = 55, current_salary = 100000,
           salary_growth_pct = 2, current_service = 20, annual_service_accrual = 1,
           max_service_cap = 40, valuation_factor = 20, sft_now = 2000000,
           sft_growth_pct = 0\<rparr>"
  from scenarios_rows [of ?p "[65, 60, 65]"] obtain rows where
    frame: "scenarios ?p [65, 60, 65] =
      (if [65, 60, 65 :: int] = [] then Inl (KeyError Ret_Age)
       else Inr \<lparr>columns = all_columns, records = sort_key ret_age rows\<rparr>)"
    and ages: "map ret_age (sort_key ret_age rows) = sort [65, 60, 65]"
    by blast
  have "sort [65, 60, 65 :: int] = [60, 65, 65]"
    by simp
  with frame ages show ?thesis
    by simp
qed

end
